theory Spec2Isabelle
  imports Main "HOL-Library.Char_ord"
begin

section \<open>YouTube transcript extraction (notebook, step 2)\<close>

subsection \<open>The two regular expressions of \<open>extract_video_id\<close>\<close>

text \<open>
  The character class \<^verbatim>\<open>[0-9A-Za-z_-]\<close> of both patterns. No flag is passed to
  \<^verbatim>\<open>re.search\<close>, so the ranges are the ASCII ones.
\<close>

definition id_char :: "char \<Rightarrow> bool" where
  "id_char c \<longleftrightarrow>
     (CHR ''0'' \<le> c \<and> c \<le> CHR ''9'') \<or> (CHR ''A'' \<le> c \<and> c \<le> CHR ''Z'') \<or>
     (CHR ''a'' \<le> c \<and> c \<le> CHR ''z'') \<or> c = CHR ''_'' \<or> c = CHR ''-''"

text \<open>A literal of a pattern, matched at the start of the text: the rest of the text.\<close>

fun strip_prefix :: "string \<Rightarrow> string \<Rightarrow> string option" where
  "strip_prefix [] s = Some s"
| "strip_prefix (p # ps) [] = None"
| "strip_prefix (p # ps) (c # cs) = (if p = c then strip_prefix ps cs else None)"

text \<open>The group \<^verbatim>\<open>([0-9A-Za-z_-]{11})\<close> at the start of the text: its capture.\<close>

definition id_group :: "string \<Rightarrow> string option" where
  "id_group s =
     (if 11 \<le> length s \<and> list_all id_char (take 11 s) then Some (take 11 s) else None)"

text \<open>
  The first pattern, \<^verbatim>\<open>(?:v=|\/)([0-9A-Za-z_-]{11}).*\<close>, tried at the start of the text;
  the result is \<^verbatim>\<open>group(1)\<close>. The alternative \<^verbatim>\<open>v=\<close> is tried before \<^verbatim>\<open>/\<close>. The
  trailing \<^verbatim>\<open>.*\<close> matches the empty string, so it never makes a match fail and never
  changes the capture.
\<close>

definition pattern1 :: "string \<Rightarrow> string option" where
  "pattern1 s =
     (case (case strip_prefix ''v='' s of Some r \<Rightarrow> id_group r | None \<Rightarrow> None) of
        Some g \<Rightarrow> Some g
      | None \<Rightarrow> (case strip_prefix ''/'' s of Some r \<Rightarrow> id_group r | None \<Rightarrow> None))"

text \<open>The second pattern, \<^verbatim>\<open>(?:youtu\.be\/)([0-9A-Za-z_-]{11})\<close>, at the start of the text.\<close>

definition pattern2 :: "string \<Rightarrow> string option" where
  "pattern2 s = (case strip_prefix ''youtu.be/'' s of Some r \<Rightarrow> id_group r | None \<Rightarrow> None)"

text \<open>
  \<^verbatim>\<open>re.search\<close>: the pattern is tried at every position of the text from the left, the
  end of the text included, and the first position where it matches gives the result.
\<close>

fun re_search :: "(string \<Rightarrow> 'a option) \<Rightarrow> string \<Rightarrow> 'a option" where
  "re_search p [] = p []"
| "re_search p (c # cs) = (case p (c # cs) of Some g \<Rightarrow> Some g | None \<Rightarrow> re_search p cs)"

subsection \<open>\<open>extract_video_id\<close>\<close>

definition patterns :: "(string \<Rightarrow> string option) list" where
  "patterns = [pattern1, pattern2]"

text \<open>The loop \<^verbatim>\<open>for pattern in patterns\<close>: the first pattern that matches returns.\<close>

fun first_match :: "(string \<Rightarrow> string option) list \<Rightarrow> string \<Rightarrow> string option" where
  "first_match [] url = None"
| "first_match (pattern # rest) url =
     (case re_search pattern url of Some g \<Rightarrow> Some g | None \<Rightarrow> first_match rest url)"

definition extract_video_id :: "string \<Rightarrow> string option" where
  "extract_video_id url = first_match patterns url"



subsection \<open>\<open>get_youtube_transcript\<close>\<close>

text \<open>
  \<^verbatim>\<open>YouTubeTranscriptApi.get_transcript\<close> is an external call: given the video id it
  either raises (\<open>Inl\<close> of the exception's \<^verbatim>\<open>str\<close>) or returns a list of entries, each a
  dictionary. The exceptions meant are those the handler \<^verbatim>\<open>except Exception\<close> catches.
\<close>

type_synonym entry = "string \<rightharpoonup> string"

type_synonym transcript_api = "string \<Rightarrow> string + entry list"

text \<open>\<^verbatim>\<open>entry['text']\<close>: a missing key raises \<^verbatim>\<open>KeyError('text')\<close>, whose \<^verbatim>\<open>str\<close> is \<^verbatim>\<open>'text'\<close>.\<close>

definition entry_text :: "entry \<Rightarrow> string + string" where
  "entry_text entry = (case entry ''text'' of None \<Rightarrow> Inl [CHR 0x27, CHR ''t'', CHR ''e'', CHR ''x'', CHR ''t'', CHR 0x27] | Some t \<Rightarrow> Inr t)"

text \<open>The generator \<^verbatim>\<open>entry['text'] for entry in transcript_list\<close>, stopping at the first raise.\<close>

fun entry_texts :: "entry list \<Rightarrow> string + string list" where
  "entry_texts [] = Inr []"
| "entry_texts (entry # rest) =
     (case entry_text entry of
        Inl e \<Rightarrow> Inl e
      | Inr t \<Rightarrow> (case entry_texts rest of Inl e \<Rightarrow> Inl e | Inr ts \<Rightarrow> Inr (t # ts)))"

text \<open>\<^verbatim>\<open>sep.join(parts)\<close>.\<close>

fun join :: "string \<Rightarrow> string list \<Rightarrow> string" where
  "join sep [] = []"
| "join sep [t] = t"
| "join sep (t # ts) = t @ sep @ join sep ts"

text \<open>
  The body of the \<^verbatim>\<open>try\<close> block: \<open>Inl\<close> is the \<^verbatim>\<open>str\<close> of the exception raised.
  \<^verbatim>\<open>not video_id\<close> holds for \<^verbatim>\<open>None\<close> and for the empty string.
\<close>

definition try_transcript :: "transcript_api \<Rightarrow> string \<Rightarrow> string + string" where
  "try_transcript get_transcript url =
     (case extract_video_id url of
        None \<Rightarrow> Inl ''Invalid YouTube URL''
      | Some video_id \<Rightarrow>
          if video_id = [] then Inl ''Invalid YouTube URL''
          else (case get_transcript video_id of
                  Inl e \<Rightarrow> Inl e
                | Inr transcript_list \<Rightarrow>
                    (case entry_texts transcript_list of
                       Inl e \<Rightarrow> Inl e
                     | Inr texts \<Rightarrow> Inr (join '' '' texts))))"

text \<open>The handler turns every exception into the returned string \<^verbatim>\<open>f"Error: {str(e)}"\<close>.\<close>

definition get_youtube_transcript :: "transcript_api \<Rightarrow> string \<Rightarrow> string" where
  "get_youtube_transcript get_transcript url =
     (case try_transcript get_transcript url of
        Inl e \<Rightarrow> ''Error: '' @ e
      | Inr full_transcript \<Rightarrow> full_transcript)"

text \<open>The URL the notebook runs on.\<close>

definition youtube_url :: string where
  "youtube_url = ''https://www.youtube.com/watch?v=q4DQaMtHvsI&ab_channel=InstituteofPolicyStudies%28IPS%29%2CSingapore''"


section \<open>The notebook's pipeline (steps 3 to 6)\<close>

text \<open>
  The statements of the notebook after the transcript is fetched, run in order as one
  script; the import cell is taken to have run. There is no handler around any of them, so
  the first exception ends the run. The library is a parameter: each of its calls is given
  the calls made before it (an external service may answer the same request differently)
  and either raises or returns. \<^verbatim>\<open>print\<close> only displays and is left out;
  \<^verbatim>\<open>pprint\<close> is called but never imported, so calling it raises \<^verbatim>\<open>NameError\<close>.
\<close>

datatype document = Document (page_content: string)

text \<open>
  The library statements, in the notebook's words:
  \<^verbatim>\<open>HuggingFaceEmbeddings(...)\<close>, \<^verbatim>\<open>stella_embeddings.embed_documents(text)\<close>,
  \<^verbatim>\<open>SemanticChunker(embeddings=stella_embeddings)\<close>, \<^verbatim>\<open>chunker.split_text(text)\<close>,
  \<^verbatim>\<open>load_dotenv()\<close>, the class statement of \<^verbatim>\<open>ChatOpenRouter\<close>,
  \<^verbatim>\<open>ChatOpenRouter(model_name=...)\<close>, the two \<^verbatim>\<open>PromptTemplate.from_template(...)\<close>,
  \<^verbatim>\<open>load_summarize_chain(...)\<close> and \<^verbatim>\<open>chain.invoke(documents)\<close>.
\<close>

datatype call =
    NewHuggingFaceEmbeddings
  | EmbedDocuments string
  | NewSemanticChunker
  | SplitText string
  | LoadDotenv
  | ClassChatOpenRouter
  | NewChatOpenRouter
  | FromTemplateQuestion
  | FromTemplateRefine
  | LoadSummarizeChain
  | ChainInvoke "document list"

text \<open>
  What ends a run: an exception raised inside a library call, or the \<^verbatim>\<open>NameError\<close> of a
  name the notebook never defined.
\<close>

datatype 'x exn = LibraryError 'x | NameError string

text \<open>
  The library. \<open>construct\<close> stands for the statements whose result is an object the
  notebook only passes on (\<open>Some\<close> is the exception raised); the three others return the
  values the notebook works with (\<open>Inl\<close> is the exception raised).
\<close>

record ('x, 'v, 'r) library =
  construct :: "call list \<Rightarrow> call \<Rightarrow> 'x option"
  embed_documents :: "call list \<Rightarrow> string \<Rightarrow> 'x + 'v list"
  split_text :: "call list \<Rightarrow> string \<Rightarrow> 'x + string list"
  invoke :: "call list \<Rightarrow> document list \<Rightarrow> 'x + 'r"

text \<open>
  A run of statements that only construct objects: the exception of the first one that
  raises, if any, and the calls made, appended to those made before.
\<close>

fun constructs ::
  "(call list \<Rightarrow> call \<Rightarrow> 'x option) \<Rightarrow> call list \<Rightarrow> call list \<Rightarrow> 'x option \<times> call list" where
  "constructs c made [] = (None, made)"
| "constructs c made (k # ks) =
     (case c made k of
        Some e \<Rightarrow> (Some e, made @ [k])
      | None \<Rightarrow> constructs c (made @ [k]) ks)"

text \<open>
  The run on a transcript: the exception that ends it, the value of \<^verbatim>\<open>output_comb\<close> if it
  was assigned, and the library calls made, in order. The loop over \<^verbatim>\<open>documents\<close> calls
  \<^verbatim>\<open>pprint\<close> in its first iteration, so it raises unless there is no document; the last
  statement, \<^verbatim>\<open>pprint(output_comb)\<close>, raises in every run that reaches it.
\<close>

definition notebook_pipeline ::
  "('x, 'v, 'r) library \<Rightarrow> string \<Rightarrow> 'x exn \<times> 'r option \<times> call list" where
  "notebook_pipeline lib text =
     (case construct lib [] NewHuggingFaceEmbeddings of
        Some e \<Rightarrow> (LibraryError e, None, [NewHuggingFaceEmbeddings])
      | None \<Rightarrow>
          (let log1 = [NewHuggingFaceEmbeddings, EmbedDocuments text] in
           case embed_documents lib [NewHuggingFaceEmbeddings] text of
             Inl e \<Rightarrow> (LibraryError e, None, log1)
           | Inr document_embeddings \<Rightarrow>
               (let log2 = log1 @ [NewSemanticChunker] in
                case construct lib log1 NewSemanticChunker of
                  Some e \<Rightarrow> (LibraryError e, None, log2)
                | None \<Rightarrow>
                    (let log3 = log2 @ [SplitText text] in
                     case split_text lib log2 text of
                       Inl e \<Rightarrow> (LibraryError e, None, log3)
                     | Inr chunks \<Rightarrow>
                         (let documents = map Document chunks in
                          if documents \<noteq> [] then (NameError ''pprint'', None, log3)
                          else
                            (case constructs (construct lib) log3
                                    [LoadDotenv, ClassChatOpenRouter, NewChatOpenRouter,
                                     FromTemplateQuestion, FromTemplateRefine,
                                     LoadSummarizeChain] of
                               (Some e, log4) \<Rightarrow> (LibraryError e, None, log4)
                             | (None, log4) \<Rightarrow>
                                 (let log5 = log4 @ [ChainInvoke documents] in
                                  case invoke lib log4 documents of
                                    Inl e \<Rightarrow> (LibraryError e, None, log5)
                                  | Inr output_comb \<Rightarrow>
                                      (NameError ''pprint'', Some output_comb, log5))))))))"

text \<open>The whole notebook: \<^verbatim>\<open>text = get_youtube_transcript(youtube_url)\<close> first.\<close>

definition notebook ::
  "transcript_api \<Rightarrow> ('x, 'v, 'r) library \<Rightarrow> string \<Rightarrow> 'x exn \<times> 'r option \<times> call list" where
  "notebook get_transcript lib url =
     notebook_pipeline lib (get_youtube_transcript get_transcript url)"

text \<open>Library behaviours for running the pipeline on concrete inputs.\<close>

definition lib_ok :: "(string, int, string) library" where
  "lib_ok =
     \<lparr>construct = (\<lambda>history k. None),
      embed_documents = (\<lambda>history text. Inr (map (\<lambda>c. 0) text)),
      split_text = (\<lambda>history text. Inr [text]),
      invoke = (\<lambda>history documents. Inr ''a summary'')\<rparr>"

definition lib_unreachable :: "(string, int, string) library" where
  "lib_unreachable =
     lib_ok\<lparr>embed_documents := (\<lambda>history text. Inl ''embedding model unreachable'')\<rparr>"

definition lib_no_model :: "(string, int, string) library" where
  "lib_no_model = lib_ok\<lparr>construct := (\<lambda>history k. Some ''model not found'')\<rparr>"

definition lib_no_chunks :: "(string, int, string) library" where
  "lib_no_chunks = lib_ok\<lparr>split_text := (\<lambda>history text. Inr [])\<rparr>"

definition api_unavailable :: transcript_api where
  "api_unavailable video_id = Inl ''Subtitles are disabled for this video''"

definition api_of_text :: "string \<Rightarrow> transcript_api" where
  "api_of_text t video_id = Inr [[''text'' \<mapsto> t]]"

section \<open>The prompts of the refine chain (notebook, step 5)\<close>

definition newline :: string where
  "newline = [CHR 0x0A]"

definition quote_mark :: string where
  "quote_mark = [CHR 0x22]"

text \<open>\<^verbatim>\<open>question_template\<close> formatted with \<^verbatim>\<open>text\<close>.\<close>

definition question_template :: "string \<Rightarrow> string" where
  "question_template text =
     newline
     @ ''Write a concise summary of the following youtube transcript with key takeaways for the audience:''
     @ newline @ quote_mark @ text @ quote_mark @ newline
     @ ''CONCISE SUMMARY:''"

text \<open>
  \<^verbatim>\<open>refine_template\<close> formatted with \<^verbatim>\<open>existing_answer\<close> and \<^verbatim>\<open>text\<close>. The backslash
  that ends its last line joins it to the closing quotes: the template has no final
  newline.
\<close>

definition refine_template :: "string \<Rightarrow> string \<Rightarrow> string" where
  "refine_template existing_answer text =
     ''Your job is to produce a final key takeaways summary.'' @ newline
     @ ''We have provided an existing summary up to a certain point: '' @ existing_answer
     @ newline @ newline
     @ ''We have the opportunity to refine the existing summary (only if needed) with some more context below.''
     @ newline @ ''------------'' @ newline @ text @ newline @ ''------------'' @ newline
     @ ''Given the new context, refine the original summary with new key takeaways.'' @ newline
     @ ''If the context isn'' @ [CHR 0x27] @ ''t useful, return the original summary.''"

section \<open>The refine chain\<close>

text \<open>
  The notebook builds the chain with
  \<^verbatim>\<open>load_summarize_chain(llm, chain_type="refine", question_prompt=question_template,
  refine_prompt=refine_template, document_variable_name="text",
  initial_response_name="existing_answer")\<close> and runs it with \<^verbatim>\<open>chain.invoke(documents)\<close>.
  The body of the chain is the library's and is not part of the repository's files. The
  definitions of this section are the Refine Orchestrator of the specification.
\<close>

text \<open>
  Modelled from the spec: the error taxonomy of the pipeline (section 7), which the
  repository's files do not declare.
\<close>

datatype error =
    InvalidInput
  | EmbeddingFailure
  | SummarizationFailure nat string
  | ConfigurationError

text \<open>
  Modelled from the spec: one invocation of the Language Model Provider by the
  orchestrator (section 4.2), with the initial template rendered on a chunk, or with the
  refine template rendered on the Running Summary and a chunk.
\<close>

datatype model_call = InitialCall string | RefineCall string string

fun call_chunk :: "model_call \<Rightarrow> string" where
  "call_chunk (InitialCall chunk) = chunk"
| "call_chunk (RefineCall summary chunk) = chunk"

fun is_initial :: "model_call \<Rightarrow> bool" where
  "is_initial (InitialCall chunk) = True"
| "is_initial (RefineCall summary chunk) = False"

text \<open>
  Modelled from the spec: the Language Model Provider, \<^verbatim>\<open>complete(prompt) -> string\<close>, which
  may fail (\<open>None\<close>). The provider is not deterministic in general, so its answer may
  depend on the calls made before, which it is given.
\<close>

type_synonym language_model = "model_call list \<Rightarrow> string \<Rightarrow> string option"

text \<open>
  Modelled from the spec: what the Refine Orchestrator is given besides the chunks, the
  provider and the two prompt templates (the initial one with one placeholder, the refine
  one with two: prior running summary and new chunk text).
\<close>

record orchestrator =
  complete :: language_model
  initial_prompt :: "string \<Rightarrow> string"
  refine_prompt :: "string \<Rightarrow> string \<Rightarrow> string"

text \<open>The orchestrator as the notebook configures it: its two templates.\<close>

definition notebook_orchestrator :: "language_model \<Rightarrow> orchestrator" where
  "notebook_orchestrator llm =
     \<lparr>complete = llm, initial_prompt = question_template, refine_prompt = refine_template\<rparr>"

text \<open>
  Modelled from the spec: the states \<^verbatim>\<open>Start\<close>, \<^verbatim>\<open>Summarizing(i)\<close> for i = 1..N and
  \<^verbatim>\<open>Done\<close> of the orchestrator's state machine (section 4.2), with the Running Summary
  and the provider calls made so far.
\<close>

datatype phase = Start | Summarizing nat | Done

record run_state =
  phase :: phase
  running_summary :: string
  calls :: "model_call list"

text \<open>
  Modelled from the spec: the state \<^verbatim>\<open>Start\<close>, before any call. The Running Summary
  is the empty string, the partial summary of a failure on the first chunk.
\<close>

definition start_state :: run_state where
  "start_state = \<lparr>phase = Start, running_summary = [], calls = []\<rparr>"

text \<open>
  Modelled from the spec: one transition of the state machine (section 4.2).
  \<^verbatim>\<open>Start\<close> to \<^verbatim>\<open>Summarizing(1)\<close> renders the initial template with the first chunk, calls
  the provider and sets the Running Summary to the response; \<^verbatim>\<open>Summarizing(i)\<close> to
  \<^verbatim>\<open>Summarizing(i+1)\<close>, for i below N, renders the refine template with the Running
  Summary and chunk i+1, calls the provider and replaces the Running Summary;
  \<^verbatim>\<open>Summarizing(N)\<close> goes to \<^verbatim>\<open>Done\<close> with no further call. A failed call aborts the run
  with \<^verbatim>\<open>SummarizationFailure\<close>, carrying the index of the failing chunk and the Running
  Summary so far. An empty chunk sequence is an error; the spec does not name it, and
  \<^verbatim>\<open>InvalidInput\<close> is used.
\<close>

definition orch_step ::
  "orchestrator \<Rightarrow> string list \<Rightarrow> run_state \<Rightarrow> (error \<times> model_call list) + run_state" where
  "orch_step orch chunks st =
     (case phase st of
        Start \<Rightarrow>
          (case chunks of
             [] \<Rightarrow> Inl (InvalidInput, calls st)
           | chunk # rest \<Rightarrow>
               (case complete orch (calls st) (initial_prompt orch chunk) of
                  None \<Rightarrow>
                    Inl (SummarizationFailure 1 (running_summary st), calls st @ [InitialCall chunk])
                | Some response \<Rightarrow>
                    Inr \<lparr>phase = Summarizing 1, running_summary = response,
                         calls = calls st @ [InitialCall chunk]\<rparr>))
      | Summarizing i \<Rightarrow>
          (if i < length chunks then
             (let chunk = chunks ! i; summary = running_summary st in
              case complete orch (calls st) (refine_prompt orch summary chunk) of
                None \<Rightarrow>
                  Inl (SummarizationFailure (i + 1) summary, calls st @ [RefineCall summary chunk])
              | Some response \<Rightarrow>
                  Inr \<lparr>phase = Summarizing (i + 1), running_summary = response,
                       calls = calls st @ [RefineCall summary chunk]\<rparr>)
           else Inr (st\<lparr>phase := Done\<rparr>))
      | Done \<Rightarrow> Inr st)"

text \<open>The number of transitions a state is at most away from \<^verbatim>\<open>Done\<close>.\<close>

definition steps_left :: "string list \<Rightarrow> run_state \<Rightarrow> nat" where
  "steps_left chunks st =
     (case phase st of
        Start \<Rightarrow> length chunks + 2
      | Summarizing i \<Rightarrow> length chunks - i + 1
      | Done \<Rightarrow> 0)"

text \<open>
  Modelled from the spec: the run of the state machine from a state to \<^verbatim>\<open>Done\<close>, the only
  success exit, where the Running Summary becomes the Final Summary, or to the failure
  that aborted it. The calls made are returned with the outcome.
\<close>

function orch_run ::
  "orchestrator \<Rightarrow> string list \<Rightarrow> run_state \<Rightarrow> (error + string) \<times> model_call list" where
  "orch_run orch chunks st =
     (if phase st = Done then (Inr (running_summary st), calls st)
      else (case orch_step orch chunks st of
              Inl (e, made) \<Rightarrow> (Inl e, made)
            | Inr st' \<Rightarrow> orch_run orch chunks st'))"
  by pat_completeness auto
termination
  by (relation "measure (\<lambda>(orch, chunks, st). steps_left chunks st)")
     (auto simp: orch_step_def steps_left_def Let_def
        split: phase.splits list.splits option.splits if_splits)

text \<open>
  Modelled from the spec: one run of the Refine Orchestrator on a chunk sequence, from
  \<^verbatim>\<open>Start\<close>.
\<close>

definition refine_chain :: "orchestrator \<Rightarrow> string list \<Rightarrow> (error + string) \<times> model_call list" where
  "refine_chain orch chunks = orch_run orch chunks start_state"

text \<open>
  Modelled from the spec: the same run written as the explicit left fold of the design
  notes (section 9). The accumulator starts as the response to the initial template on
  the first chunk; the fold function is "render refine template, call provider, replace
  accumulator". The accumulator carries the calls made, and once a call has failed the
  remaining chunks leave it as it is.
\<close>

definition fold_first :: "orchestrator \<Rightarrow> string \<Rightarrow> (error + string) \<times> model_call list" where
  "fold_first orch chunk =
     (case complete orch [] (initial_prompt orch chunk) of
        None \<Rightarrow> (Inl (SummarizationFailure 1 []), [InitialCall chunk])
      | Some response \<Rightarrow> (Inr response, [InitialCall chunk]))"

text \<open>
  Modelled from the spec: the fold function of section 9. The index of a failing chunk
  is the number of calls made before it, plus one.
\<close>

definition fold_step ::
  "orchestrator \<Rightarrow> (error + string) \<times> model_call list \<Rightarrow> string
     \<Rightarrow> (error + string) \<times> model_call list" where
  "fold_step orch acc chunk =
     (case fst acc of
        Inl e \<Rightarrow> acc
      | Inr summary \<Rightarrow>
          (case complete orch (snd acc) (refine_prompt orch summary chunk) of
             None \<Rightarrow>
               (Inl (SummarizationFailure (length (snd acc) + 1) summary),
                snd acc @ [RefineCall summary chunk])
           | Some response \<Rightarrow> (Inr response, snd acc @ [RefineCall summary chunk])))"

text \<open>
  Modelled from the spec: the left fold of section 9 over the chunk sequence; the empty
  sequence is the error of the state machine.
\<close>

definition refine_fold :: "orchestrator \<Rightarrow> string list \<Rightarrow> (error + string) \<times> model_call list" where
  "refine_fold orch chunks =
     (case chunks of
        [] \<Rightarrow> (Inl InvalidInput, [])
      | chunk # rest \<Rightarrow> foldl (fold_step orch) (fold_first orch chunk) rest)"

text \<open>
  A provider for running the chain on concrete chunks: its k-th answer is marked with k
  stars. The chunks are the two of the specification's example.
\<close>

definition counting_model :: language_model where
  "counting_model history prompt =
     Some (''summary '' @ replicate (Suc (length history)) (CHR ''*''))"

definition example_chunks :: "string list" where
  "example_chunks = [''Sentence one. Sentence two.'', ''Totally unrelated sentence three.'']"

definition example_calls :: "model_call list" where
  "example_calls =
     [InitialCall ''Sentence one. Sentence two.'',
      RefineCall ''summary *'' ''Totally unrelated sentence three.'']"


section \<open>Properties of the transcript extraction\<close>

subsection \<open>Searching with the two patterns\<close>

lemma strip_prefix_Some: "strip_prefix p s = Some r \<longleftrightarrow> s = p @ r"
  by (induction p s rule: strip_prefix.induct) auto

lemma strip_prefix_None: "strip_prefix p s = None \<longleftrightarrow> (\<forall>r. s \<noteq> p @ r)"
  by (induction p s rule: strip_prefix.induct) auto

lemma re_search_None: "re_search p s = None \<longleftrightarrow> (\<forall>i\<le>length s. p (drop i s) = None)"
proof (induction s)
  case Nil
  then show ?case by simp
next
  case (Cons c cs)
  have "(\<forall>i\<le>length (c # cs). p (drop i (c # cs)) = None)
        \<longleftrightarrow> p (c # cs) = None \<and> (\<forall>i\<le>length cs. p (drop i cs) = None)"
  proof (intro iffI conjI allI impI)
    assume a: "\<forall>i\<le>length (c # cs). p (drop i (c # cs)) = None"
    from a have "p (drop 0 (c # cs)) = None" by blast
    then show "p (c # cs) = None" by simp
    fix i assume "i \<le> length cs"
    with a have "p (drop (Suc i) (c # cs)) = None" by (metis Suc_le_mono length_Cons)
    then show "p (drop i cs) = None" by simp
  next
    fix i assume b: "p (c # cs) = None \<and> (\<forall>i\<le>length cs. p (drop i cs) = None)"
      and i: "i \<le> length (c # cs)"
    show "p (drop i (c # cs)) = None"
    proof (cases i)
      case 0
      with b show ?thesis by simp
    next
      case (Suc j)
      with b i show ?thesis by simp
    qed
  qed
  with Cons show ?case by (simp split: option.splits)
qed

lemma re_search_Some: "re_search p s = Some g \<Longrightarrow> \<exists>i\<le>length s. p (drop i s) = Some g"
proof (induction s)
  case Nil
  then show ?case by simp
next
  case (Cons c cs)
  show ?case
  proof (cases "p (c # cs)")
    case None
    with Cons.prems have "re_search p cs = Some g" by simp
    from Cons.IH[OF this] obtain i where "i \<le> length cs" "p (drop i cs) = Some g" by blast
    then have "Suc i \<le> length (c # cs) \<and> p (drop (Suc i) (c # cs)) = Some g" by simp
    then show ?thesis by blast
  next
    case (Some a)
    with Cons.prems have "p (drop 0 (c # cs)) = Some g" by simp
    then show ?thesis by blast
  qed
qed

lemma pattern2_imp_pattern1: "pattern2 s = Some g \<Longrightarrow> pattern1 (drop 8 s) = Some g"
  by (auto simp: pattern2_def pattern1_def strip_prefix_Some split: option.splits)

lemma pattern1_Some_iff:
  "pattern1 s = Some g \<longleftrightarrow>
     (\<exists>r. (s = ''v='' @ r \<or> s = ''/'' @ r) \<and> id_group r = Some g)"
  by (auto simp: pattern1_def strip_prefix_Some split: option.splits)

lemma id_group_Some_iff:
  "id_group r = Some g \<longleftrightarrow> 11 \<le> length r \<and> list_all id_char (take 11 r) \<and> g = take 11 r"
  by (auto simp: id_group_def)

lemma re_search_pattern2_pattern1:
  assumes "re_search pattern2 url = Some g"
  shows "re_search pattern1 url \<noteq> None"
proof -
  from re_search_Some[OF assms] obtain i where i: "i \<le> length url"
    and m: "pattern2 (drop i url) = Some g" by blast
  from m obtain r where r: "drop i url = ''youtu.be/'' @ r" and g: "id_group r = Some g"
    by (auto simp: pattern2_def strip_prefix_Some split: option.splits)
  from r have "length (drop i url) = 9 + length r" by simp
  then have len: "i + 8 \<le> length url" by simp
  from pattern2_imp_pattern1[OF m] have "pattern1 (drop (i + 8) url) = Some g"
    by (simp add: add.commute)
  with len show ?thesis by (auto simp: re_search_None)
qed

lemma extract_video_id_eq: "extract_video_id url = re_search pattern1 url"
proof (cases "re_search pattern1 url")
  case None
  have "re_search pattern2 url = None"
  proof (cases "re_search pattern2 url")
    case (Some g)
    from re_search_pattern2_pattern1[OF Some] None show ?thesis by simp
  qed simp
  with None show ?thesis by (simp add: extract_video_id_def patterns_def)
next
  case (Some g)
  then show ?thesis by (simp add: extract_video_id_def patterns_def)
qed








subsection \<open>\<open>get_youtube_transcript\<close> returns a string\<close>

lemma youtube_url_id: "extract_video_id youtube_url = Some ''q4DQaMtHvsI''"
  by code_simp

lemma try_transcript_api_of_text: "try_transcript (api_of_text t) youtube_url = Inr t"
  by (simp add: try_transcript_def youtube_url_id api_of_text_def entry_text_def)

lemma extract_video_id_nonempty: "extract_video_id url \<noteq> Some []"
proof
  assume "extract_video_id url = Some []"
  then have "re_search pattern1 url = Some []" by (simp add: extract_video_id_eq)
  from re_search_Some[OF this] obtain k where "pattern1 (drop k url) = Some []" by blast
  then show False by (auto simp: pattern1_Some_iff id_group_Some_iff)
qed

text \<open>
  C9. \<open>get_youtube_transcript\<close> is a total function into strings: every exception of
  the \<^verbatim>\<open>try\<close> block ends as a returned string. A run either fetches a transcript and
  returns it, or fails with an exception \<open>e\<close> and returns \<^verbatim>\<open>Error: \<close> followed by
  \<open>str(e)\<close>; so it does for an invalid URL and for an exception of the transcript API.
  The returned string does not tell the two apart: whatever a run returns, an error
  message included, is also what a successful run returns when the video's transcript is
  that text. And the notebook hands the returned string on unchecked: once the embedding
  model is constructed, the next call is the Embedding Provider's, on that string.
\<close>

theorem get_youtube_transcript_returns_string:
  "((\<exists>t. try_transcript get_transcript url = Inr t \<and>
         get_youtube_transcript get_transcript url = t) \<or>
    (\<exists>e. try_transcript get_transcript url = Inl e \<and>
         get_youtube_transcript get_transcript url = ''Error: '' @ e)) \<and>
   (extract_video_id url = None \<longrightarrow>
      get_youtube_transcript get_transcript url = ''Error: Invalid YouTube URL'') \<and>
   (extract_video_id url = Some video_id \<and> get_transcript video_id = Inl e \<longrightarrow>
      get_youtube_transcript get_transcript url = ''Error: '' @ e) \<and>
   try_transcript (api_of_text (get_youtube_transcript get_transcript url)) youtube_url
     = Inr (get_youtube_transcript get_transcript url) \<and>
   get_youtube_transcript (api_of_text (get_youtube_transcript get_transcript url)) youtube_url
     = get_youtube_transcript get_transcript url \<and>
   (construct lib [] NewHuggingFaceEmbeddings = None \<longrightarrow>
      take 2 (snd (snd (notebook get_transcript lib url)))
        = [NewHuggingFaceEmbeddings,
           EmbedDocuments (get_youtube_transcript get_transcript url)])"
proof (intro conjI impI)
  show "(\<exists>t. try_transcript get_transcript url = Inr t \<and>
             get_youtube_transcript get_transcript url = t) \<or>
        (\<exists>e. try_transcript get_transcript url = Inl e \<and>
             get_youtube_transcript get_transcript url = ''Error: '' @ e)"
    by (cases "try_transcript get_transcript url") (simp_all add: get_youtube_transcript_def)
  show "get_youtube_transcript get_transcript url = ''Error: Invalid YouTube URL''"
    if "extract_video_id url = None"
    using that by (simp add: get_youtube_transcript_def try_transcript_def)
  show "get_youtube_transcript get_transcript url = ''Error: '' @ e"
    if "extract_video_id url = Some video_id \<and> get_transcript video_id = Inl e"
  proof -
    from that have v: "extract_video_id url = Some video_id"
      and g: "get_transcript video_id = Inl e" by simp_all
    from v extract_video_id_nonempty[of url] have "video_id \<noteq> []" by auto
    with v g show ?thesis by (simp add: get_youtube_transcript_def try_transcript_def)
  qed
  show t: "try_transcript (api_of_text (get_youtube_transcript get_transcript url)) youtube_url
     = Inr (get_youtube_transcript get_transcript url)"
    by (rule try_transcript_api_of_text)
  show "get_youtube_transcript (api_of_text (get_youtube_transcript get_transcript url))
      youtube_url = get_youtube_transcript get_transcript url"
    by (simp add: get_youtube_transcript_def[of "api_of_text _"] t)
  show "take 2 (snd (snd (notebook get_transcript lib url)))
      = [NewHuggingFaceEmbeddings, EmbedDocuments (get_youtube_transcript get_transcript url)]"
    if "construct lib [] NewHuggingFaceEmbeddings = None"
    using that
    by (simp add: notebook_def notebook_pipeline_def Let_def
        split: sum.splits option.splits prod.splits)
qed

text \<open>
  The theorem on the notebook's URL when the transcript API raises, and on a text that is
  no URL: both runs return an error message, and the first is also the transcript of a
  successful run.
\<close>

theorem get_youtube_transcript_returns_string_witness:
  "extract_video_id youtube_url = Some ''q4DQaMtHvsI'' \<and>
   api_unavailable ''q4DQaMtHvsI'' = Inl ''Subtitles are disabled for this video'' \<and>
   get_youtube_transcript api_unavailable youtube_url
     = ''Error: Subtitles are disabled for this video'' \<and>
   get_youtube_transcript (api_of_text ''Error: Subtitles are disabled for this video'')
      youtube_url = ''Error: Subtitles are disabled for this video'' \<and>
   extract_video_id ''not a url'' = None \<and>
   get_youtube_transcript api_unavailable ''not a url'' = ''Error: Invalid YouTube URL'' \<and>
   construct lib_ok [] NewHuggingFaceEmbeddings = None \<and>
   take 2 (snd (snd (notebook api_unavailable lib_ok youtube_url)))
     = [NewHuggingFaceEmbeddings,
        EmbedDocuments ''Error: Subtitles are disabled for this video'']"
proof -
  have k: "construct lib_ok [] NewHuggingFaceEmbeddings = None" by (simp add: lib_ok_def)
  have a: "extract_video_id youtube_url = Some ''q4DQaMtHvsI''" by (rule youtube_url_id)
  have b: "api_unavailable ''q4DQaMtHvsI'' = Inl ''Subtitles are disabled for this video''"
    by (simp add: api_unavailable_def)
  have c: "extract_video_id ''not a url'' = None" by code_simp
  note t1 = get_youtube_transcript_returns_string
    [of api_unavailable youtube_url "''q4DQaMtHvsI''" "''Subtitles are disabled for this video''"
      lib_ok]
  note t2 = get_youtube_transcript_returns_string
    [of api_unavailable "''not a url''" "[]" "[]" lib_ok]
  from t1 a b have r: "get_youtube_transcript api_unavailable youtube_url
      = ''Error: Subtitles are disabled for this video''" by simp
  from t1 have "get_youtube_transcript
      (api_of_text (get_youtube_transcript api_unavailable youtube_url)) youtube_url
      = get_youtube_transcript api_unavailable youtube_url" by blast
  with r have s: "get_youtube_transcript
      (api_of_text ''Error: Subtitles are disabled for this video'') youtube_url
      = ''Error: Subtitles are disabled for this video''" by simp
  from t2 c have u: "get_youtube_transcript api_unavailable ''not a url''
      = ''Error: Invalid YouTube URL''" by blast
  from t1 k have "take 2 (snd (snd (notebook api_unavailable lib_ok youtube_url)))
      = [NewHuggingFaceEmbeddings,
         EmbedDocuments (get_youtube_transcript api_unavailable youtube_url)]" by blast
  with r have n: "take 2 (snd (snd (notebook api_unavailable lib_ok youtube_url)))
      = [NewHuggingFaceEmbeddings,
         EmbedDocuments ''Error: Subtitles are disabled for this video'']" by simp
  from a b c r s u k n show ?thesis by blast
qed

section \<open>Properties of the notebook's pipeline\<close>

lemma notebook_pipeline_first_calls:
  "construct lib [] NewHuggingFaceEmbeddings = None \<Longrightarrow>
     take 2 (snd (snd (notebook_pipeline lib text))) = [NewHuggingFaceEmbeddings, EmbedDocuments text]"
  by (simp add: notebook_pipeline_def Let_def split: sum.splits option.splits prod.splits)

text \<open>
  C4, as amended. The notebook checks nothing about the transcript and returns no
  \<^verbatim>\<open>InvalidInput\<close> before the provider calls: for every transcript, the empty and the
  whitespace-only ones included, once the embedding model is constructed the next step is
  the call of the Embedding Provider on the transcript; the run ends before that call only
  when the constructor raises, and then with the constructor's exception.
\<close>

theorem notebook_pipeline_no_input_check:
  "(construct lib [] NewHuggingFaceEmbeddings = None \<longrightarrow>
      take 2 (snd (snd (notebook_pipeline lib text)))
        = [NewHuggingFaceEmbeddings, EmbedDocuments text]) \<and>
   (construct lib [] NewHuggingFaceEmbeddings = Some e \<longrightarrow>
      notebook_pipeline lib text = (LibraryError e, None, [NewHuggingFaceEmbeddings]))"
proof (intro conjI impI)
  assume "construct lib [] NewHuggingFaceEmbeddings = None"
  then show "take 2 (snd (snd (notebook_pipeline lib text)))
      = [NewHuggingFaceEmbeddings, EmbedDocuments text]"
    by (rule notebook_pipeline_first_calls)
next
  assume "construct lib [] NewHuggingFaceEmbeddings = Some e"
  then show "notebook_pipeline lib text = (LibraryError e, None, [NewHuggingFaceEmbeddings])"
    by (simp add: notebook_pipeline_def)
qed

text \<open>
  The theorem on the empty transcript: with a library whose calls all return, and with
  one whose embedding model cannot be constructed.
\<close>

theorem notebook_pipeline_no_input_check_witness:
  "construct lib_ok [] NewHuggingFaceEmbeddings = None \<and>
   take 2 (snd (snd (notebook_pipeline lib_ok [])))
     = [NewHuggingFaceEmbeddings, EmbedDocuments []] \<and>
   construct lib_no_model [] NewHuggingFaceEmbeddings = Some ''model not found'' \<and>
   notebook_pipeline lib_no_model []
     = (LibraryError ''model not found'', None, [NewHuggingFaceEmbeddings])"
proof -
  have a: "construct lib_ok [] NewHuggingFaceEmbeddings = None"
    by (simp add: lib_ok_def)
  have b: "construct lib_no_model [] NewHuggingFaceEmbeddings = Some ''model not found''"
    by (simp add: lib_no_model_def lib_ok_def)
  from notebook_pipeline_no_input_check [of lib_ok "[]" "[]"] a
  have "take 2 (snd (snd (notebook_pipeline lib_ok [])))
      = [NewHuggingFaceEmbeddings, EmbedDocuments []]" by blast
  moreover from notebook_pipeline_no_input_check [of lib_no_model "[]" "''model not found''"] b
  have "notebook_pipeline lib_no_model []
      = (LibraryError ''model not found'', None, [NewHuggingFaceEmbeddings])" by blast
  ultimately show ?thesis using a b by blast
qed

text \<open>
  C4 as stated fails: on the empty transcript, and on a transcript of two spaces, the
  notebook calls the Embedding Provider and the chunker, and what ends the run is not an
  \<^verbatim>\<open>InvalidInput\<close> error: it is the \<^verbatim>\<open>NameError\<close> of \<^verbatim>\<open>pprint\<close> when the library calls
  return, and the provider's own exception, after the call, when the Embedding Provider
  raises.
\<close>

theorem empty_transcript_reaches_providers:
  "notebook_pipeline lib_ok []
     = (NameError ''pprint'', None,
        [NewHuggingFaceEmbeddings, EmbedDocuments [], NewSemanticChunker, SplitText []]) \<and>
   notebook_pipeline lib_ok ''  ''
     = (NameError ''pprint'', None,
        [NewHuggingFaceEmbeddings, EmbedDocuments ''  '', NewSemanticChunker,
         SplitText ''  '']) \<and>
   notebook_pipeline lib_unreachable []
     = (LibraryError ''embedding model unreachable'', None,
        [NewHuggingFaceEmbeddings, EmbedDocuments []])"
  by (simp add: notebook_pipeline_def lib_ok_def lib_unreachable_def)

text \<open>
  A run that reaches the chain: it needs a chunker that returns no chunk, since the loop
  over the documents raises otherwise; it ends at \<^verbatim>\<open>pprint(output_comb)\<close>.
\<close>

lemma notebook_pipeline_no_chunks_run:
  "notebook_pipeline lib_no_chunks ''a transcript''
     = (NameError ''pprint'', Some ''a summary'',
        [NewHuggingFaceEmbeddings, EmbedDocuments ''a transcript'', NewSemanticChunker,
         SplitText ''a transcript'', LoadDotenv, ClassChatOpenRouter, NewChatOpenRouter,
         FromTemplateQuestion, FromTemplateRefine, LoadSummarizeChain, ChainInvoke []])"
  by (simp add: notebook_pipeline_def lib_no_chunks_def lib_ok_def)

section \<open>Properties of the refine chain\<close>

declare orch_run.simps [simp del]

lemma orch_run_Done: "phase st = Done \<Longrightarrow> orch_run orch chunks st = (Inr (running_summary st), calls st)"
  by (simp add: orch_run.simps)

lemma foldl_fold_step_failed:
  "fst acc = Inl e \<Longrightarrow> foldl (fold_step orch) acc cs = acc"
  by (induction cs) (simp_all add: fold_step_def)

lemma orch_run_Summarizing:
  assumes "phase st = Summarizing i" "i \<le> length chunks" "length (calls st) = i"
  shows "orch_run orch chunks st =
         foldl (fold_step orch) (Inr (running_summary st), calls st) (drop i chunks)"
  using assms
proof (induction "length chunks - i" arbitrary: st i)
  case 0
  then have i: "i = length chunks" by simp
  with 0 have "orch_step orch chunks st = Inr (st\<lparr>phase := Done\<rparr>)"
    by (simp add: orch_step_def)
  with 0 i show ?case by (simp add: orch_run.simps[of orch chunks st] orch_run_Done)
next
  case (Suc n)
  then have lt: "i < length chunks" by simp
  let ?c = "chunks ! i" and ?s = "running_summary st"
  have dr: "drop i chunks = ?c # drop (Suc i) chunks" using lt by (simp add: Cons_nth_drop_Suc)
  show ?case
  proof (cases "complete orch (calls st) (refine_prompt orch ?s ?c)")
    case None
    with Suc.prems lt have st: "orch_step orch chunks st =
        Inl (SummarizationFailure (i + 1) ?s, calls st @ [RefineCall ?s ?c])"
      by (simp add: orch_step_def Let_def)
    have "fold_step orch (Inr ?s, calls st) ?c =
        (Inl (SummarizationFailure (i + 1) ?s), calls st @ [RefineCall ?s ?c])"
      using None Suc.prems by (simp add: fold_step_def)
    with st Suc.prems show ?thesis
      by (simp add: orch_run.simps[of orch chunks st] dr foldl_fold_step_failed)
  next
    case (Some r)
    let ?st' = "\<lparr>phase = Summarizing (i + 1), running_summary = r,
                 calls = calls st @ [RefineCall ?s ?c]\<rparr>"
    from Some Suc.prems lt have st: "orch_step orch chunks st = Inr ?st'"
      by (simp add: orch_step_def Let_def)
    have "orch_run orch chunks ?st' =
        foldl (fold_step orch) (Inr (running_summary ?st'), calls ?st') (drop (i + 1) chunks)"
      using Suc.hyps(2) Suc.prems lt by (intro Suc.hyps(1)) simp_all
    moreover have "fold_step orch (Inr ?s, calls st) ?c = (Inr r, calls st @ [RefineCall ?s ?c])"
      using Some by (simp add: fold_step_def)
    ultimately show ?thesis using st Suc.prems
      by (simp add: orch_run.simps[of orch chunks st] dr)
  qed
qed

lemma refine_chain_eq_fold: "refine_chain orch chunks = refine_fold orch chunks"
proof (cases chunks)
  case Nil
  then show ?thesis
    by (simp add: refine_chain_def refine_fold_def start_state_def orch_step_def
        orch_run.simps[of orch "[]"])
next
  case (Cons c rest)
  show ?thesis
  proof (cases "complete orch [] (initial_prompt orch c)")
    case None
    with Cons show ?thesis
      by (simp add: refine_chain_def refine_fold_def start_state_def orch_step_def
          fold_first_def foldl_fold_step_failed orch_run.simps[of orch "c # rest"])
  next
    case (Some r)
    let ?st' = "\<lparr>phase = Summarizing 1, running_summary = r, calls = [InitialCall c]\<rparr>"
    have "orch_run orch chunks ?st' =
        foldl (fold_step orch) (Inr (running_summary ?st'), calls ?st') (drop 1 chunks)"
      using Cons by (intro orch_run_Summarizing) simp_all
    with Cons Some show ?thesis
      by (simp add: refine_chain_def refine_fold_def start_state_def orch_step_def
          fold_first_def orch_run.simps[of orch "c # rest" "\<lparr>phase = Start, running_summary = [], calls = []\<rparr>"])
  qed
qed

lemma foldl_fold_step_calls:
  "\<exists>ext. snd (foldl (fold_step orch) acc cs) = snd acc @ ext \<and>
         map call_chunk ext = take (length ext) cs \<and>
         map is_initial ext = replicate (length ext) False \<and>
         length ext \<le> length cs \<and>
         ((\<exists>s. fst (foldl (fold_step orch) acc cs) = Inr s) \<longrightarrow> length ext = length cs)"
proof (induction cs arbitrary: acc)
  case Nil
  then show ?case by simp
next
  case (Cons c cs)
  show ?case
  proof (cases "fst acc")
    case (Inl e)
    then have "foldl (fold_step orch) acc (c # cs) = acc" by (rule foldl_fold_step_failed)
    with Inl show ?thesis by simp
  next
    case (Inr s)
    let ?acc' = "fold_step orch acc c"
    from Inr have sa: "snd ?acc' = snd acc @ [RefineCall s c]"
      by (simp add: fold_step_def split: option.splits)
    from Cons.IH[of ?acc'] obtain ext where
      e: "snd (foldl (fold_step orch) ?acc' cs) = snd ?acc' @ ext"
        "map call_chunk ext = take (length ext) cs"
        "map is_initial ext = replicate (length ext) False"
        "length ext \<le> length cs"
        "(\<exists>s. fst (foldl (fold_step orch) ?acc' cs) = Inr s) \<longrightarrow> length ext = length cs"
      by blast
    let ?ext = "RefineCall s c # ext"
    have "snd (foldl (fold_step orch) acc (c # cs)) = snd acc @ ?ext" using e(1) sa by simp
    moreover have "map call_chunk ?ext = take (length ?ext) (c # cs)" using e(2) by simp
    moreover have "map is_initial ?ext = replicate (length ?ext) False" using e(3) by simp
    moreover have "length ?ext \<le> length (c # cs)" using e(4) by simp
    moreover have "(\<exists>s. fst (foldl (fold_step orch) acc (c # cs)) = Inr s) \<longrightarrow>
        length ?ext = length (c # cs)" using e(5) by simp
    ultimately show ?thesis by blast
  qed
qed

lemma refine_chain_calls:
  assumes "chunks \<noteq> []"
  shows "\<exists>ext. snd (refine_chain orch chunks) = InitialCall (hd chunks) # ext \<and>
         map call_chunk ext = take (length ext) (tl chunks) \<and>
         map is_initial ext = replicate (length ext) False \<and>
         length ext \<le> length (tl chunks) \<and>
         ((\<exists>s. fst (refine_chain orch chunks) = Inr s) \<longrightarrow> length ext = length (tl chunks))"
proof -
  from assms obtain c rest where c: "chunks = c # rest" by (cases chunks) auto
  have s: "snd (fold_first orch c) = [InitialCall c]"
    by (simp add: fold_first_def split: option.splits)
  from foldl_fold_step_calls[of orch "fold_first orch c" rest] s c show ?thesis
    by (simp add: refine_chain_eq_fold refine_fold_def)
qed

lemma foldl_fold_step_succeeds:
  assumes "\<forall>history prompt. complete orch history prompt \<noteq> None"
  shows "fst acc = Inr s \<Longrightarrow> \<exists>s'. fst (foldl (fold_step orch) acc cs) = Inr s'"
proof (induction cs arbitrary: acc s)
  case Nil
  then show ?case by simp
next
  case (Cons c cs)
  from assms obtain r where "complete orch (snd acc) (refine_prompt orch s c) = Some r"
    by (metis option.exhaust)
  with Cons.prems have "fst (fold_step orch acc c) = Inr r" by (simp add: fold_step_def)
  from Cons.IH[OF this] show ?case by simp
qed

lemma refine_chain_succeeds:
  assumes "\<forall>history prompt. complete orch history prompt \<noteq> None" "chunks \<noteq> []"
  shows "\<exists>summary. fst (refine_chain orch chunks) = Inr summary"
proof -
  from assms(2) obtain c rest where c: "chunks = c # rest" by (cases chunks) auto
  from assms(1) obtain r where "complete orch [] (initial_prompt orch c) = Some r"
    by (metis option.exhaust)
  then have "fst (fold_first orch c) = Inr r" by (simp add: fold_first_def)
  from foldl_fold_step_succeeds[OF assms(1) this, of rest] c show ?thesis
    by (simp add: refine_chain_eq_fold refine_fold_def)
qed

text \<open>
  C2. For a chunk sequence of length N of at least 1, a run of the refine chain never
  invokes the Language Model Provider more than N times; it returns a summary whenever
  the provider answers every call; and a run that returns a summary invokes the provider
  exactly N times: the first invocation is the initial template on the first chunk, the
  other N - 1 are the refine template, and the chunks of the invocations are the chunks
  of the sequence, each once and in order.
\<close>

theorem refine_chain_invocations:
  "chunks \<noteq> [] \<longrightarrow>
     length (snd (refine_chain orch chunks)) \<le> length chunks \<and>
     ((\<forall>history prompt. complete orch history prompt \<noteq> None) \<longrightarrow>
        (\<exists>s. fst (refine_chain orch chunks) = Inr s)) \<and>
     (refine_chain orch chunks = (Inr summary, made) \<longrightarrow>
        length made = length chunks \<and>
        hd made = InitialCall (hd chunks) \<and>
        map is_initial made = True # replicate (length chunks - 1) False \<and>
        map call_chunk made = chunks)"
proof (intro impI conjI)
  assume ne: "chunks \<noteq> []"
  then obtain c rest where c: "chunks = c # rest" by (cases chunks) auto
  from refine_chain_calls[OF ne, of orch] c obtain ext where
    e: "snd (refine_chain orch chunks) = InitialCall c # ext"
       "map call_chunk ext = take (length ext) rest"
       "map is_initial ext = replicate (length ext) False"
       "length ext \<le> length rest"
       "(\<exists>s. fst (refine_chain orch chunks) = Inr s) \<longrightarrow> length ext = length rest"
    by auto
  show "length (snd (refine_chain orch chunks)) \<le> length chunks" using e(1,4) c by simp
  show "\<exists>s. fst (refine_chain orch chunks) = Inr s"
    if "\<forall>history prompt. complete orch history prompt \<noteq> None"
    using refine_chain_succeeds[OF that ne] .
  assume r: "refine_chain orch chunks = (Inr summary, made)"
  with e(1) have m: "made = InitialCall c # ext" by simp
  from r e(5) have l: "length ext = length rest" by simp
  show "length made = length chunks" using m l c by simp
  show "hd made = InitialCall (hd chunks)" using m c by simp
  show "map is_initial made = True # replicate (length chunks - 1) False"
    using m e(3) l c by simp
  show "map call_chunk made = chunks" using m e(2) l c by simp
qed

text \<open>
  The theorem on the two chunks of the specification's example, with the notebook's
  templates: two invocations, the initial template on the first chunk and the refine
  template on the second.
\<close>

theorem refine_chain_invocations_witness:
  "example_chunks \<noteq> [] \<and>
   (\<forall>history prompt. complete (notebook_orchestrator counting_model) history prompt \<noteq> None) \<and>
   (\<exists>s. fst (refine_chain (notebook_orchestrator counting_model) example_chunks) = Inr s) \<and>
   refine_chain (notebook_orchestrator counting_model) example_chunks
     = (Inr ''summary **'', example_calls) \<and>
   length (snd (refine_chain (notebook_orchestrator counting_model) example_chunks))
     \<le> length example_chunks \<and>
   length example_calls = length example_chunks \<and>
   hd example_calls = InitialCall (hd example_chunks) \<and>
   map is_initial example_calls = True # replicate (length example_chunks - 1) False \<and>
   map call_chunk example_calls = example_chunks"
proof -
  have ne: "example_chunks \<noteq> []" by (simp add: example_chunks_def)
  have total: "\<forall>history prompt.
      complete (notebook_orchestrator counting_model) history prompt \<noteq> None"
    by (simp add: notebook_orchestrator_def counting_model_def)
  have run: "refine_chain (notebook_orchestrator counting_model) example_chunks
      = (Inr ''summary **'', example_calls)" by code_simp
  from refine_chain_invocations
    [of example_chunks "notebook_orchestrator counting_model" "''summary **''" example_calls]
    ne total run
  show ?thesis by blast
qed

text \<open>
  C5. The outcome of the refine chain, the Final Summary with the calls made, is that
  of the explicit left fold over the chunks: the accumulator starts as the model's
  response to the initial template on chunk 1, and each later step replaces it by the
  model's response to the refine template on the accumulator and the next chunk.
\<close>

theorem refine_chain_is_left_fold: "refine_chain orch chunks = refine_fold orch chunks"
  by (rule refine_chain_eq_fold)

text \<open>The two sides of the theorem on the example: the same summary and the same calls.\<close>

theorem refine_chain_is_left_fold_witness:
  "refine_chain (notebook_orchestrator counting_model) example_chunks
     = (Inr ''summary **'', example_calls) \<and>
   refine_fold (notebook_orchestrator counting_model) example_chunks
     = (Inr ''summary **'', example_calls)"
proof -
  have run: "refine_fold (notebook_orchestrator counting_model) example_chunks
      = (Inr ''summary **'', example_calls)" by code_simp
  with refine_chain_is_left_fold [of "notebook_orchestrator counting_model" example_chunks]
  show ?thesis by simp
qed

end
